theory Spec2Isabelle
  imports Complex_Main
begin

section \<open>Strings as Python sees them\<close>

text \<open>
  A Python \<open>str\<close> is modelled as a \<open>string\<close>; a character is read as the code point
  0..255 it encodes.  The character classes below are the ones of CPython on that range:
  \<open>str.isspace\<close> (used by \<open>strip\<close>, \<open>split\<close> and the regex class \<open>\s\<close>),
  the decimal digits (\<open>\d\<close>) and the word characters (\<open>\w\<close>).
\<close>

definition is_space :: "char \<Rightarrow> bool" where
  "is_space c =
     (let n = (of_char c :: nat)
      in (9 \<le> n \<and> n \<le> 13) \<or> (28 \<le> n \<and> n \<le> 32) \<or> n = 133 \<or> n = 160)"

definition is_digit :: "char \<Rightarrow> bool" where
  "is_digit c = (let n = (of_char c :: nat) in 48 \<le> n \<and> n \<le> 57)"

definition is_word :: "char \<Rightarrow> bool" where
  "is_word c =
     (let n = (of_char c :: nat)
      in (48 \<le> n \<and> n \<le> 57) \<or> (65 \<le> n \<and> n \<le> 90) \<or> n = 95 \<or> (97 \<le> n \<and> n \<le> 122)
         \<or> n = 170 \<or> n = 178 \<or> n = 179 \<or> n = 181 \<or> n = 185 \<or> n = 186
         \<or> (188 \<le> n \<and> n \<le> 190) \<or> (192 \<le> n \<and> n \<le> 214)
         \<or> (216 \<le> n \<and> n \<le> 246) \<or> 248 \<le> n)"

text \<open>The class \<open>[\(\)\d\+-\.\*,]\<close> of both patterns: \<open>\+-\.\<close> is the range from
  \<open>+\<close> to \<open>.\<close>, that is \<open>+ , - .\<close>.\<close>

definition is_amount_char :: "char \<Rightarrow> bool" where
  "is_amount_char c = (is_digit c \<or> c \<in> set ''()+,-.*'')"

text \<open>\<open>.\<close> of a pattern compiled without flags: any character but the newline.\<close>

definition is_dot :: "char \<Rightarrow> bool" where
  "is_dot c = (c \<noteq> CHR 0x0A)"

text \<open>\<open>s.strip()\<close>\<close>

definition strip :: "string \<Rightarrow> string" where
  "strip s = rev (dropWhile is_space (rev (dropWhile is_space s)))"

text \<open>\<open>s.split()\<close>: the maximal runs of non-whitespace characters, \<open>w\<close> is the run
  being read.\<close>

fun split_run :: "string \<Rightarrow> string \<Rightarrow> string list" where
  "split_run w [] = (if w = [] then [] else [w])"
| "split_run w (c # cs) =
     (if is_space c then (if w = [] then split_run [] cs else w # split_run [] cs)
      else split_run (w @ [c]) cs)"

definition split :: "string \<Rightarrow> string list" where
  "split s = split_run [] s"

text \<open>\<open>s.split(sep)\<close> for a separator of one character: empty pieces are kept.\<close>

fun split_on :: "char \<Rightarrow> string \<Rightarrow> string list" where
  "split_on sep [] = [[]]"
| "split_on sep (c # cs) =
     (if c = sep then [] # split_on sep cs
      else (case split_on sep cs of [] \<Rightarrow> [[c]] | p # ps \<Rightarrow> (c # p) # ps))"

text \<open>\<open>s.replace(a, b)\<close> for single characters.\<close>

definition replace :: "char \<Rightarrow> char \<Rightarrow> string \<Rightarrow> string" where
  "replace a b s = map (\<lambda>c. if c = a then b else c) s"

text \<open>\<open>sep.join(xs)\<close>\<close>

fun join :: "string \<Rightarrow> string list \<Rightarrow> string" where
  "join sep [] = []"
| "join sep [x] = x"
| "join sep (x # y # ys) = x @ sep @ join sep (y # ys)"

section \<open>The two line patterns\<close>

text \<open>
  \<open>re.match\<close> is a backtracking search anchored at the start of the line: every
  quantifier offers its alternatives in order of preference (a greedy one the longest
  first, the lazy one the shortest first) and the first alternative for which the rest
  of the pattern matches is taken.  \<open>first_some\<close> is that search.
\<close>

fun first_some :: "('a \<Rightarrow> 'b option) \<Rightarrow> 'a list \<Rightarrow> 'b option" where
  "first_some f [] = None"
| "first_some f (x # xs) = (case f x of Some y \<Rightarrow> Some y | None \<Rightarrow> first_some f xs)"

text \<open>The repetition counts a greedy quantifier tries on a run of \<open>n\<close> matching
  characters, with at least \<open>lo\<close> repetitions, and those a lazy \<open>*?\<close> tries.\<close>

definition greedy :: "nat \<Rightarrow> nat \<Rightarrow> nat list" where
  "greedy lo n = rev [lo..<Suc n]"

definition lazy :: "nat \<Rightarrow> nat list" where
  "lazy n = [0..<Suc n]"

text \<open>\<open>\d\d\d\d\.\d\d\.\d\d\<close> at the head of a string.\<close>

fun date_re :: "string \<Rightarrow> bool" where
  "date_re (y1 # y2 # y3 # y4 # p1 # m1 # m2 # p2 # d1 # d2 # _) =
     (is_digit y1 \<and> is_digit y2 \<and> is_digit y3 \<and> is_digit y4 \<and> p1 = CHR ''.'' \<and>
      is_digit m1 \<and> is_digit m2 \<and> p2 = CHR ''.'' \<and> is_digit d1 \<and> is_digit d2)"
| "date_re _ = False"

text \<open>The optional group \<open>(\d\d\d\d\.\d\d\.\d\d)?\<close>: the date if there is one, then
  the empty alternative, in which the group is \<open>None\<close>.  Each alternative comes with the
  rest of the string.\<close>

definition date_group :: "string \<Rightarrow> (string option \<times> string) list" where
  "date_group s = (if date_re s then [(Some (take 10 s), drop 10 s)] else []) @ [(None, s)]"

text \<open>
  \<open>cmd_re = \s*(\d\d\d\d\.\d\d\.\d\d)?\s+!(.*?) +([\(\)\d\+-\.\*,]+)\s*\<close>.
  The groups are the date, the command and the amount.  The pattern is read in three
  parts, each the continuation of the one before: \<open>cmd_re_name\<close> is
  \<open>(.*?) +([\(\)\d\+-\.\*,]+)\s*\<close>, on the text after the \<open>!\<close>; after the amount comes
  \<open>\s*\<close>, which cannot fail, so the longest amount is the one taken.
  \<open>cmd_re_bang\<close> is \<open>\s+!\<close> and what follows, on the text after the date group.
\<close>

definition cmd_re_name :: "string option \<Rightarrow> string \<Rightarrow> (string option \<times> string \<times> string) option" where
  "cmd_re_name date_str s2 =
     first_some (\<lambda>j.
       first_some (\<lambda>k2.
         let value_str = takeWhile is_amount_char (drop k2 (drop j s2))
         in if value_str = [] then None else Some (date_str, take j s2, value_str))
         (greedy 1 (length (takeWhile (\<lambda>c. c = CHR '' '') (drop j s2)))))
       (lazy (length (takeWhile is_dot s2)))"

definition cmd_re_bang :: "string option \<Rightarrow> string \<Rightarrow> (string option \<times> string \<times> string) option" where
  "cmd_re_bang date_str s1 =
     first_some (\<lambda>k1.
       (case drop k1 s1 of
          [] \<Rightarrow> None
        | c # s2 \<Rightarrow> if c = CHR ''!'' then cmd_re_name date_str s2 else None))
       (greedy 1 (length (takeWhile is_space s1)))"

definition cmd_re :: "string \<Rightarrow> (string option \<times> string \<times> string) option" where
  "cmd_re s =
     first_some (\<lambda>k0.
       first_some (\<lambda>(date_str, s1). cmd_re_bang date_str s1) (date_group (drop k0 s)))
       (greedy 0 (length (takeWhile is_space s)))"

text \<open>
  \<open>entry_re =  *(\d\d\d\d\.\d\d\.\d\d)? *(.*?) +([\(\)\d\+-\.,\*]+)\w*(.*)\<close>.
  The groups are the date, the description, the amount and the note.
  \<open>entry_re_desc\<close> is \<open>(.*?) +([\(\)\d\+-\.,\*]+)\w*(.*)\<close>; after the amount come
  \<open>\w*\<close> and \<open>(.*)\<close>, which cannot fail, so each takes the longest run.
  \<open>entry_re_spaces\<close> is the \<open> *\<close> after the date group and what follows.
\<close>

definition entry_re_desc ::
  "string option \<Rightarrow> string \<Rightarrow> (string option \<times> string \<times> string \<times> string) option" where
  "entry_re_desc date_gr s2 =
     first_some (\<lambda>j.
       first_some (\<lambda>k2.
         let s4 = drop k2 (drop j s2);
             value_gr = takeWhile is_amount_char s4
         in if value_gr = [] then None
            else Some (date_gr, take j s2, value_gr,
                       takeWhile is_dot (dropWhile is_word (dropWhile is_amount_char s4))))
         (greedy 1 (length (takeWhile (\<lambda>c. c = CHR '' '') (drop j s2)))))
       (lazy (length (takeWhile is_dot s2)))"

definition entry_re_spaces ::
  "string option \<Rightarrow> string \<Rightarrow> (string option \<times> string \<times> string \<times> string) option" where
  "entry_re_spaces date_gr s1 =
     first_some (\<lambda>k1. entry_re_desc date_gr (drop k1 s1))
       (greedy 0 (length (takeWhile (\<lambda>c. c = CHR '' '') s1)))"

definition entry_re :: "string \<Rightarrow> (string option \<times> string \<times> string \<times> string) option" where
  "entry_re s =
     first_some (\<lambda>k0.
       first_some (\<lambda>(date_gr, s1). entry_re_spaces date_gr s1) (date_group (drop k0 s)))
       (greedy 0 (length (takeWhile (\<lambda>c. c = CHR '' '') s)))"

section \<open>Exceptions\<close>

text \<open>
  The exceptions the modelled code can raise.  \<open>Unmodelled\<close> is not a Python exception:
  it marks an amount expression whose value is outside this model (see \<open>py_eval\<close>).
\<close>

datatype py_error =
  AttributeError | ValueError | TypeError | SyntaxError | IndexError | Unmodelled

section \<open>Amount expressions: the builtin \<open>eval\<close>\<close>

text \<open>
  The amount field is handed to \<open>eval\<close>.  Both patterns restrict it to the characters
  \<open>( ) + , - . *\<close> and the digits.  \<open>py_eval\<close> models the builtin on the expressions
  built from decimal literals, unary and binary \<open>+\<close> and \<open>-\<close>, \<open>*\<close> and parentheses.
  Numbers are exact rationals: an \<open>int\<close> is itself, a \<open>float\<close> is idealised as the
  decimal value written, and rounding of binary floating point is not modelled.
  An expression that Python accepts but whose value is not such a number (a tuple
  written with \<open>,\<close> or \<open>()\<close>, a power \<open>**\<close>, the ellipsis \<open>...\<close>, a call such as
  \<open>1(2)\<close>) gives \<open>Unmodelled\<close>; ill-formed text gives \<open>SyntaxError\<close>.
\<close>

datatype token = NUMBER rat | PLUS | MINUS | STAR | LPAR | RPAR

text \<open>\<open>int(s)\<close> on a string of decimal digits.\<close>

definition int_of_digits :: "string \<Rightarrow> nat" where
  "int_of_digits s = foldl (\<lambda>n c. 10 * n + (of_char c - 48)) 0 s"

fun has_ellipsis :: "string \<Rightarrow> bool" where
  "has_ellipsis (a # b # c # s) =
     ((a = CHR ''.'' \<and> b = CHR ''.'' \<and> c = CHR ''.'') \<or> has_ellipsis (b # c # s))"
| "has_ellipsis _ = False"

text \<open>
  The value of a maximal run \<open>w\<close> of digits and dots.  A decimal integer must not have
  a leading zero unless it is zero; a float is \<open>digits . [digits]\<close> or \<open>. digits\<close>;
  any other run is two adjacent tokens, or contains the ellipsis.
\<close>

definition number :: "string \<Rightarrow> py_error + rat" where
  "number w =
     (let ip = takeWhile is_digit w; r = dropWhile is_digit w
      in if r = [] then
           (if hd ip = CHR ''0'' \<and> int_of_digits ip \<noteq> 0 then Inl SyntaxError
            else Inr (of_nat (int_of_digits ip)))
         else
           (let fp = takeWhile is_digit (tl r); r2 = dropWhile is_digit (tl r)
            in if r2 \<noteq> [] then (if has_ellipsis w then Inl Unmodelled else Inl SyntaxError)
               else if ip = [] \<and> fp = [] then Inl SyntaxError
               else Inr (of_nat (int_of_digits ip) + of_nat (int_of_digits fp) / 10 ^ length fp)))"

text \<open>The tokens of an expression; \<open>w\<close> is the run of digits and dots being read.\<close>

fun tokenize :: "string \<Rightarrow> string \<Rightarrow> py_error + token list" where
  "tokenize w [] =
     (if w = [] then Inr []
      else (case number w of Inl e \<Rightarrow> Inl e | Inr n \<Rightarrow> Inr [NUMBER n]))"
| "tokenize w (c # cs) =
     (if is_digit c \<or> c = CHR ''.'' then tokenize (w @ [c]) cs
      else
        (case (if c = CHR ''+'' then Inr PLUS
               else if c = CHR ''-'' then Inr MINUS
               else if c = CHR ''('' then Inr LPAR
               else if c = CHR '')'' then Inr RPAR
               else if c = CHR ''*'' then
                 (case cs of [] \<Rightarrow> Inr STAR
                  | d # _ \<Rightarrow> if d = CHR ''*'' then Inl Unmodelled else Inr STAR)
               else Inl Unmodelled) of
           Inl e \<Rightarrow> Inl e
         | Inr t \<Rightarrow>
             (case tokenize [] cs of
                Inl e \<Rightarrow> Inl e
              | Inr ts \<Rightarrow>
                  if w = [] then Inr (t # ts)
                  else (case number w of Inl e \<Rightarrow> Inl e | Inr n \<Rightarrow> Inr (NUMBER n # t # ts)))))"

text \<open>
  Evaluation by operator precedence, with a stack of pending operators and a stack of
  values: unary \<open>+\<close> and \<open>-\<close> bind tighter than \<open>*\<close>, which binds tighter than binary
  \<open>+\<close> and \<open>-\<close>; the binary operators associate to the left.
\<close>

datatype oper = ADD | SUB | MUL | POS | NEG | PAREN

fun prec :: "oper \<Rightarrow> nat" where
  "prec ADD = 1" | "prec SUB = 1" | "prec MUL = 2" | "prec POS = 3" | "prec NEG = 3"
| "prec PAREN = 0"

fun apply_oper :: "oper \<Rightarrow> rat list \<Rightarrow> rat list" where
  "apply_oper ADD (b # a # vs) = (a + b) # vs"
| "apply_oper SUB (b # a # vs) = (a - b) # vs"
| "apply_oper MUL (b # a # vs) = (a * b) # vs"
| "apply_oper POS (a # vs) = a # vs"
| "apply_oper NEG (a # vs) = (- a) # vs"
| "apply_oper _ vs = vs"

text \<open>Apply the pending operators of precedence at least \<open>p\<close>, down to the innermost
  open parenthesis.\<close>

fun reduce :: "nat \<Rightarrow> oper list \<Rightarrow> rat list \<Rightarrow> oper list \<times> rat list" where
  "reduce p [] vs = ([], vs)"
| "reduce p (PAREN # os) vs = (PAREN # os, vs)"
| "reduce p (x # os) vs = (if p \<le> prec x then reduce p os (apply_oper x vs) else (x # os, vs))"

text \<open>\<open>operand\<close> says that the next token must start an operand.\<close>

fun shunt :: "bool \<Rightarrow> oper list \<Rightarrow> rat list \<Rightarrow> token list \<Rightarrow> py_error + rat" where
  "shunt operand os vs [] =
     (if operand then Inl SyntaxError
      else (case reduce 0 os vs of ([], [v]) \<Rightarrow> Inr v | _ \<Rightarrow> Inl SyntaxError))"
| "shunt operand os vs (t # ts) =
     (if operand then
        (case t of
           NUMBER n \<Rightarrow> shunt False os (n # vs) ts
         | PLUS \<Rightarrow> shunt True (POS # os) vs ts
         | MINUS \<Rightarrow> shunt True (NEG # os) vs ts
         | LPAR \<Rightarrow> shunt True (PAREN # os) vs ts
         | STAR \<Rightarrow> Inl SyntaxError
         | RPAR \<Rightarrow> (case os of PAREN # _ \<Rightarrow> Inl Unmodelled | _ \<Rightarrow> Inl SyntaxError))
      else
        (case t of
           NUMBER n \<Rightarrow> Inl SyntaxError
         | LPAR \<Rightarrow> Inl Unmodelled
         | RPAR \<Rightarrow>
             (case reduce 0 os vs of
                (PAREN # os', vs') \<Rightarrow> shunt False os' vs' ts
              | _ \<Rightarrow> Inl SyntaxError)
         | PLUS \<Rightarrow> (case reduce 1 os vs of (os', vs') \<Rightarrow> shunt True (ADD # os') vs' ts)
         | MINUS \<Rightarrow> (case reduce 1 os vs of (os', vs') \<Rightarrow> shunt True (SUB # os') vs' ts)
         | STAR \<Rightarrow> (case reduce 2 os vs of (os', vs') \<Rightarrow> shunt True (MUL # os') vs' ts)))"

definition py_eval :: "string \<Rightarrow> py_error + rat" where
  "py_eval s = (case tokenize [] s of Inl e \<Rightarrow> Inl e | Inr ts \<Rightarrow> shunt True [] [] ts)"

section \<open>Dates\<close>

text \<open>A \<open>datetime.date\<close>: year, month and day of the month.\<close>

datatype date = Date (year: nat) (month: nat) (dom: nat)

definition is_leap :: "nat \<Rightarrow> bool" where
  "is_leap y = (if y mod 100 = 0 then y mod 400 = 0 else y mod 4 = 0)"

definition days_in_month :: "nat \<Rightarrow> nat \<Rightarrow> nat" where
  "days_in_month y m =
     (if m = 2 then (if is_leap y then 29 else 28)
      else if m = 4 \<or> m = 6 \<or> m = 9 \<or> m = 11 then 30 else 31)"

definition valid_date :: "date \<Rightarrow> bool" where
  "valid_date d =
     (1 \<le> year d \<and> year d \<le> 9999 \<and> 1 \<le> month d \<and> month d \<le> 12 \<and>
      1 \<le> dom d \<and> dom d \<le> days_in_month (year d) (month d))"

text \<open>\<open>datetime.date(*map(int, date_str.split('.')))\<close>: the constructor wants three
  arguments and checks their ranges.\<close>

definition parse_date :: "string \<Rightarrow> py_error + date" where
  "parse_date date_str =
     (case map int_of_digits (split_on (CHR ''.'') date_str) of
        [y, m, d] \<Rightarrow> if valid_date (Date y m d) then Inr (Date y m d) else Inl ValueError
      | _ \<Rightarrow> Inl TypeError)"

text \<open>The order of dates, and the comparisons of two \<open>day\<close> fields, which raise
  \<open>TypeError\<close> when one of them is \<open>None\<close>.\<close>

definition date_less :: "date \<Rightarrow> date \<Rightarrow> bool" where
  "date_less a b =
     (year a < year b \<or> (year a = year b \<and>
       (month a < month b \<or> (month a = month b \<and> dom a < dom b))))"

definition date_le :: "date \<Rightarrow> date \<Rightarrow> bool" where
  "date_le a b = (a = b \<or> date_less a b)"

fun day_le :: "date option \<Rightarrow> date option \<Rightarrow> py_error + bool" where
  "day_le (Some a) (Some b) = Inr (date_le a b)"
| "day_le _ _ = Inl TypeError"

fun day_ge :: "date option \<Rightarrow> date option \<Rightarrow> py_error + bool" where
  "day_ge (Some a) (Some b) = Inr (date_le b a)"
| "day_ge _ _ = Inl TypeError"

fun day_gt :: "date option \<Rightarrow> date option \<Rightarrow> py_error + bool" where
  "day_gt (Some a) (Some b) = Inr (date_less b a)"
| "day_gt _ _ = Inl TypeError"

section \<open>Formatting\<close>

text \<open>\<open>str(n)\<close> for a natural number, and zero padding as \<open>%04d\<close> and \<open>%02d\<close> do it.\<close>

definition digit_char :: "nat \<Rightarrow> char" where
  "digit_char n = char_of (48 + n)"

fun dec :: "nat \<Rightarrow> string" where
  "dec n = (if n < 10 then [digit_char n] else dec (n div 10) @ [digit_char (n mod 10)])"

declare dec.simps [simp del]

definition zfill :: "nat \<Rightarrow> string \<Rightarrow> string" where
  "zfill w s = replicate (w - length s) (CHR ''0'') @ s"

text \<open>\<open>str(d)\<close> for a date is its ISO form \<open>YYYY-MM-DD\<close>.\<close>

definition isoformat :: "date \<Rightarrow> string" where
  "isoformat d =
     zfill 4 (dec (year d)) @ ''-'' @ zfill 2 (dec (month d)) @ ''-'' @ zfill 2 (dec (dom d))"

definition str_day :: "date option \<Rightarrow> string" where
  "str_day d = (case d of None \<Rightarrow> ''None'' | Some x \<Rightarrow> isoformat x)"

text \<open>
  The format specifications \<open>{:.1f}\<close> and \<open>{:.0f}\<close>: \<open>format_f k x\<close> writes \<open>x\<close> with
  \<open>k\<close> digits after the point, rounded to the nearest, ties to the even digit.
  \<open>round_half_even\<close> rounds a fraction \<open>a / b\<close> that is not negative: \<open>q\<close> is its
  integer part and \<open>r / b\<close> what is left over.
\<close>

definition round_half_even :: "rat \<Rightarrow> nat" where
  "round_half_even x =
     (case quotient_of x of
        (a, b) \<Rightarrow>
          (let q = a div b; r = a mod b
           in nat (if b < 2 * r then q + 1
                   else if 2 * r = b then (if q mod 2 = 1 then q + 1 else q)
                   else q)))"

definition format_f :: "nat \<Rightarrow> rat \<Rightarrow> string" where
  "format_f k x =
     (let n = round_half_even (\<bar>x\<bar> * 10 ^ k)
      in (if x < 0 then ''-'' else []) @ dec (n div 10 ^ k) @
         (if k = 0 then [] else ''.'' @ zfill k (dec (n mod 10 ^ k))))"

section \<open>Entry\<close>

text \<open>
  \<open>cats\<close> is the list \<open>[]\<close> a new entry starts with, or the tuple a transaction line
  assigns; Python never finds a list equal to a tuple.
\<close>

datatype pyseq = PyList (items: "string list") | PyTuple (items: "string list")

record Entry =
  cats :: pyseq
  tags :: "string list"
  day :: "date option"
  value_e :: rat
  note_e :: string
  cmd :: "string option"

text \<open>The fields as the head of \<open>__init__\<close> sets them; \<open>Entry()\<close> is this entry.\<close>

definition Entry_default :: Entry where
  "Entry_default =
     \<lparr>cats = PyList [], tags = [], day = None, value_e = 0, note_e = [], cmd = None\<rparr>"

text \<open>The line \<open>print("Error line: {} ({})".format(s, e))\<close>, where \<open>e\<close> is the
  \<open>AttributeError\<close> of calling \<open>groups\<close> on \<open>None\<close>.\<close>

definition error_line :: "string \<Rightarrow> string" where
  "error_line s =
     ''Error line: '' @ s @ '' ('' @ [CHR 0x27] @ ''NoneType'' @ [CHR 0x27] @
     '' object has no attribute '' @ [CHR 0x27] @ ''groups'' @ [CHR 0x27] @ '')''"

text \<open>
  \<open>Entry.__init__(s, date)\<close>.  The result is the exception raised, or the entry built
  together with the lines printed.
\<close>

definition Entry_init :: "string option \<Rightarrow> date option \<Rightarrow> py_error + (Entry \<times> string list)" where
  "Entry_init s date =
     (case s of
        None \<Rightarrow> Inr (Entry_default, [])
      | Some s \<Rightarrow>
          if strip s = [] then Inr (Entry_default, [])
          else if hd (strip s) = CHR ''#'' then Inr (Entry_default, [])
          else
            (case cmd_re s of
               Some (date_str, c, value_str) \<Rightarrow>
                 (case date_str of
                    None \<Rightarrow> Inl AttributeError
                  | Some ds \<Rightarrow>
                      (case parse_date ds of
                         Inl err \<Rightarrow> Inl err
                       | Inr d \<Rightarrow>
                           (case py_eval value_str of
                              Inl err \<Rightarrow> Inl err
                            | Inr v \<Rightarrow>
                                Inr (Entry_default\<lparr>cmd := Some c, day := Some d, value_e := v\<rparr>,
                                     []))))
             | None \<Rightarrow>
                 (case entry_re s of
                    None \<Rightarrow> Inr (Entry_default, [error_line s])
                  | Some (date_gr, desc_gr, value_gr0, note_gr) \<Rightarrow>
                      (let value_gr = replace (CHR '','') (CHR ''.'') value_gr0;
                           note_words = filter (\<lambda>w. w \<noteq> []) (split note_gr)
                       in case (case date_gr of
                                  None \<Rightarrow> Inr date
                                | Some ds \<Rightarrow>
                                    (case parse_date ds of
                                       Inl err \<Rightarrow> Inl err
                                     | Inr d \<Rightarrow> Inr (Some d))) of
                            Inl err \<Rightarrow> Inl err
                          | Inr d \<Rightarrow>
                              (case py_eval value_gr of
                                 Inl err \<Rightarrow> Inl err
                               | Inr v \<Rightarrow>
                                   Inr (\<lparr>cats = PyTuple (filter (\<lambda>w. w \<noteq> [])
                                                  (map strip (split_on (CHR '','') desc_gr))),
                                         tags = map tl (filter (\<lambda>x. hd x = CHR ''#'') note_words),
                                         day = d,
                                         value_e = (if hd value_gr = CHR ''+'' then v else - v),
                                         note_e = join '' ''
                                                    (filter (\<lambda>x. hd x \<noteq> CHR ''#'') note_words),
                                         cmd = None\<rparr>, []))))))"

text \<open>\<open>Entry.__str__\<close>\<close>

definition Entry_str :: "Entry \<Rightarrow> string" where
  "Entry_str e =
     (case cmd e of
        None \<Rightarrow>
          (let value_str = (if value_e e < 0 then format_f 1 (- value_e e)
                            else ''+'' @ format_f 0 (value_e e))
           in str_day (day e) @ '' '' @ join '','' (items (cats e)) @ '' '' @ value_str @ '' '' @
              note_e e @ '' '' @ join '' '' (map (\<lambda>x. CHR ''#'' # x) (tags e)))
      | Some c \<Rightarrow> str_day (day e) @ '' !'' @ c @ '' '' @ format_f 1 (value_e e))"

text \<open>\<open>Entry.__eq__\<close>, \<open>Entry.__gt__\<close>, and the \<open>__lt__\<close> that \<open>total_ordering\<close> derives
  from them: \<open>not (self > other) and self != other\<close>.\<close>

definition Entry_eq :: "Entry \<Rightarrow> Entry \<Rightarrow> bool" where
  "Entry_eq a b =
     (cats a = cats b \<and> day a = day b \<and> tags a = tags b \<and> value_e a = value_e b \<and>
      note_e a = note_e b)"

definition Entry_gt :: "Entry \<Rightarrow> Entry \<Rightarrow> py_error + bool" where
  "Entry_gt a b = day_gt (day a) (day b)"

definition Entry_lt :: "Entry \<Rightarrow> Entry \<Rightarrow> py_error + bool" where
  "Entry_lt a b =
     (case Entry_gt a b of Inl err \<Rightarrow> Inl err | Inr g \<Rightarrow> Inr (\<not> g \<and> \<not> Entry_eq a b))"

section \<open>Bookkeeper\<close>

record Bookkeeper =
  entries :: "Entry list"
  last_day :: "date option"
  month_start_day :: nat
  weekly_categories :: "string list list"

text \<open>\<open>Bookkeeper.__init__\<close>\<close>

definition Bookkeeper_init :: "nat \<Rightarrow> string list list \<Rightarrow> Bookkeeper" where
  "Bookkeeper_init msd wc =
     \<lparr>entries = [], last_day = None, month_start_day = msd, weekly_categories = wc\<rparr>"

text \<open>
  \<open>bisect.bisect_right(a, x, lo, hi)\<close>: the loop compares with \<open>x < a[mid]\<close>, which for
  entries is \<open>Entry_lt\<close>.  \<open>bisect.insort_right(a, x)\<close> inserts \<open>x\<close> at the index found.
\<close>

function bisect_right :: "Entry list \<Rightarrow> Entry \<Rightarrow> nat \<Rightarrow> nat \<Rightarrow> py_error + nat" where
  "bisect_right a x lo hi =
     (if lo < hi then
        (let mid = (lo + hi) div 2
         in case Entry_lt x (a ! mid) of
              Inl err \<Rightarrow> Inl err
            | Inr b \<Rightarrow> if b then bisect_right a x lo mid else bisect_right a x (mid + 1) hi)
      else Inr lo)"
  by pat_completeness auto
termination
  by (relation "measure (\<lambda>(a, x, lo, hi). hi - lo)") auto

declare bisect_right.simps [simp del]

definition insort_right :: "Entry list \<Rightarrow> Entry \<Rightarrow> py_error + Entry list" where
  "insort_right a x =
     (case bisect_right a x 0 (length a) of
        Inl err \<Rightarrow> Inl err
      | Inr i \<Rightarrow> Inr (take i a @ [x] @ drop i a))"

text \<open>
  \<open>Bookkeeper.account(line)\<close>.  The result is the exception raised, or the ledger after
  the call together with the lines printed.
\<close>

definition account :: "Bookkeeper \<Rightarrow> string \<Rightarrow> py_error + (Bookkeeper \<times> string list)" where
  "account bk line =
     (if line = [] then Inr (bk, [])
      else
        (case Entry_init (Some line) (last_day bk) of
           Inl err \<Rightarrow> Inl err
         | Inr (e, out) \<Rightarrow>
             (let bk1 = bk\<lparr>last_day := day e\<rparr>
              in if \<not> Entry_eq e Entry_default then
                   (case (if 0 < length (entries bk1)
                          then day_ge (day (last (entries bk1))) (day e) else Inr False) of
                      Inl err \<Rightarrow> Inl err
                    | Inr b \<Rightarrow>
                        if b then Inr (bk1\<lparr>entries := entries bk1 @ [e]\<rparr>, out)
                        else
                          (case insort_right (entries bk1) e of
                             Inl err \<Rightarrow> Inl err
                           | Inr es \<Rightarrow> Inr (bk1\<lparr>entries := es\<rparr>, out)))
                 else Inr (bk1, out))))"

text \<open>
  \<open>Bookkeeper.filter\<close>.  The filters of Python 3 are lazy; the model gives what the
  caller gets by reading the result to its end: the entries, or the first exception
  raised.  \<open>today\<close> stands for \<open>datetime.date.today()\<close>.
\<close>

fun filter_raising :: "('a \<Rightarrow> py_error + bool) \<Rightarrow> 'a list \<Rightarrow> py_error + 'a list" where
  "filter_raising p [] = Inr []"
| "filter_raising p (x # xs) =
     (case p x of
        Inl err \<Rightarrow> Inl err
      | Inr b \<Rightarrow>
          (case filter_raising p xs of
             Inl err \<Rightarrow> Inl err
           | Inr ys \<Rightarrow> Inr (if b then x # ys else ys)))"

text \<open>The conjunction of two lazy filters: the second sees what the first lets pass.\<close>

definition and_then :: "('a \<Rightarrow> py_error + bool) \<Rightarrow> ('a \<Rightarrow> py_error + bool) \<Rightarrow> 'a \<Rightarrow> py_error + bool" where
  "and_then p q x = (case p x of Inl err \<Rightarrow> Inl err | Inr b \<Rightarrow> if b then q x else Inr False)"

definition sign_filter :: "string option \<Rightarrow> Entry \<Rightarrow> py_error + bool" where
  "sign_filter sign a =
     (if sign = Some ''+'' then Inr (0 < value_e a)
      else if sign = Some ''-'' then Inr (value_e a < 0)
      else Inr True)"

text \<open>\<open>pr[0] <= x.day <= pr[1]\<close>\<close>

definition period_filter :: "(date option \<times> date option) option \<Rightarrow> Entry \<Rightarrow> py_error + bool" where
  "period_filter pr x =
     (case pr of
        None \<Rightarrow> Inr True
      | Some (p0, p1) \<Rightarrow>
          (case day_le p0 (day x) of
             Inl err \<Rightarrow> Inl err
           | Inr b \<Rightarrow> if b then day_le (day x) p1 else Inr False))"

text \<open>\<open>len(e.cats) >= len(c) and all([e.cats[i] == c[i] for i in range(len(c))])\<close>\<close>

definition cat_match :: "Entry \<Rightarrow> string list \<Rightarrow> bool" where
  "cat_match e c =
     (length c \<le> length (items (cats e)) \<and>
      list_all (\<lambda>i. items (cats e) ! i = c ! i) [0..<length c])"

text \<open>The two nested loops over \<open>result\<close> and \<open>cats\<close>: an entry is appended once for
  every \<open>c\<close> it matches, the \<open>continue\<close> going on with the next \<open>c\<close>.\<close>

definition filtered_by_cats :: "string list list \<Rightarrow> Entry list \<Rightarrow> Entry list" where
  "filtered_by_cats cs result =
     concat (map (\<lambda>e. concat (map (\<lambda>c. if cat_match e c then [e] else []) cs)) result)"

text \<open>\<open>x.tags.intersection(tags) != set()\<close>: \<open>x.tags\<close> is a list, and a list has no
  attribute \<open>intersection\<close>.\<close>

definition tags_filter :: "string list option \<Rightarrow> Entry \<Rightarrow> py_error + bool" where
  "tags_filter ts x = (case ts of None \<Rightarrow> Inr True | Some t \<Rightarrow> Inl AttributeError)"

definition filter_bk ::
  "date \<Rightarrow> Bookkeeper \<Rightarrow> (date option \<times> date option) option \<Rightarrow> string list list option \<Rightarrow>
   string list option \<Rightarrow> string option \<Rightarrow> string option list \<Rightarrow> py_error + Entry list" where
  "filter_bk today bk period cs ts sign cmds =
     (let result = filter (\<lambda>x. cmd x \<in> set cmds) (entries bk)
      in case (case period of
                 None \<Rightarrow> Inr None
               | Some (p0, p1) \<Rightarrow>
                   (case (case p0 of
                            Some d \<Rightarrow> Inr (Some d)
                          | None \<Rightarrow> (case entries bk of [] \<Rightarrow> Inl IndexError
                                     | e # _ \<Rightarrow> Inr (day e))) of
                      Inl err \<Rightarrow> Inl err
                    | Inr q0 \<Rightarrow>
                        Inr (Some (q0, (case p1 of Some d \<Rightarrow> Some d | None \<Rightarrow> Some today))))) of
           Inl err \<Rightarrow> Inl err
         | Inr pr \<Rightarrow>
             (case cs of
                None \<Rightarrow>
                  filter_raising
                    (and_then (sign_filter sign) (and_then (period_filter pr) (tags_filter ts)))
                    result
              | Some c \<Rightarrow>
                  (case filter_raising (and_then (sign_filter sign) (period_filter pr)) result of
                     Inl err \<Rightarrow> Inl err
                   | Inr r \<Rightarrow> filter_raising (tags_filter ts) (filtered_by_cats c r))))"


section \<open>Loading\<close>

text \<open>
  The loop of \<open>load_data\<close> over the lines of the text: an exception of \<open>account\<close> is
  raised again as a \<open>LineFormatError\<close> made of the exception and the line.
\<close>

datatype LineFormatError = LineFormatError py_error string

fun load_lines :: "Bookkeeper \<Rightarrow> string list \<Rightarrow> LineFormatError + (Bookkeeper \<times> string list)" where
  "load_lines bk [] = Inr (bk, [])"
| "load_lines bk (line # ls) =
     (case account bk line of
        Inl err \<Rightarrow> Inl (LineFormatError err line)
      | Inr (bk1, out) \<Rightarrow>
          (case load_lines bk1 ls of
             Inl err \<Rightarrow> Inl err
           | Inr (bk2, out2) \<Rightarrow> Inr (bk2, out @ out2)))"

section \<open>The running total as the specification words it\<close>


section \<open>Auxiliary facts\<close>

lemma first_some_SomeD: "first_some f xs = Some y \<Longrightarrow> \<exists>x\<in>set xs. f x = Some y"
  by (induction xs) (auto split: option.splits)


lemma Entry_eq_refl: "Entry_eq e e"
  by (simp add: Entry_eq_def)







lemma digit_not_space: "is_digit c \<Longrightarrow> \<not> is_space c"
  by (simp add: is_digit_def is_space_def Let_def)














lemma is_digit_digit_char: "n < 10 \<Longrightarrow> is_digit (digit_char n)"
  by (simp add: is_digit_def digit_char_def)

lemma dec_digits: "c \<in> set (dec n) \<Longrightarrow> is_digit c"
proof (induction n rule: dec.induct)
  case (1 n)
  then show ?case
    by (subst (asm) (2) dec.simps) (auto simp: is_digit_digit_char split: if_splits)
qed

lemma length_dec: "0 < k \<Longrightarrow> n < 10 ^ k \<Longrightarrow> length (dec n) \<le> k"
proof (induction n arbitrary: k rule: dec.induct)
  case (1 n)
  show ?case
  proof (cases "n < 10")
    case True
    with "1.prems" show ?thesis by (subst dec.simps) simp
  next
    case False
    with "1.prems" obtain j where k: "k = Suc j" by (cases k) auto
    with False "1.prems" have j: "0 < j" by (cases j) auto
    from k "1.prems" have "n div 10 < 10 ^ j" by (simp add: less_mult_imp_div_less mult.commute)
    with "1.IH" [OF False j] have "length (dec (n div 10)) \<le> j" by simp
    with False k show ?thesis by (subst dec.simps) simp
  qed
qed

lemma zfill_shape:
  assumes "length s \<le> w" and "\<forall>c\<in>set s. is_digit c"
  shows "length (zfill w s) = w \<and> (\<forall>c\<in>set (zfill w s). is_digit c)"
  using assms by (auto simp: zfill_def is_digit_def)

lemma isoformat_shape:
  assumes "valid_date dt"
  shows "\<exists>z r. isoformat dt = z @ CHR ''-'' # r \<and> length z = 4 \<and> (\<forall>c\<in>set z. is_digit c)"
proof -
  from assms have "year dt < 10 ^ 4" by (simp add: valid_date_def)
  then have "length (dec (year dt)) \<le> 4" by (intro length_dec) simp_all
  then have "length (zfill 4 (dec (year dt))) = 4 \<and>
             (\<forall>c\<in>set (zfill 4 (dec (year dt))). is_digit c)"
    by (intro zfill_shape) (auto dest: dec_digits)
  moreover have "isoformat dt = zfill 4 (dec (year dt)) @ CHR ''-'' #
                   (zfill 2 (dec (month dt)) @ ''-'' @ zfill 2 (dec (dom dt)))"
    by (simp add: isoformat_def)
  ultimately show ?thesis by blast
qed

lemma Entry_str_shape:
  assumes "day e = Some dt" and "valid_date dt"
  shows "\<exists>z r. Entry_str e = z @ CHR ''-'' # r \<and> length z = 4 \<and> (\<forall>c\<in>set z. is_digit c)"
proof -
  from isoformat_shape [OF assms(2)] obtain z r where
    z: "isoformat dt = z @ CHR ''-'' # r" "length z = 4" "\<forall>c\<in>set z. is_digit c" by blast
  with assms(1) have "\<exists>r'. Entry_str e = z @ CHR ''-'' # r'"
    by (cases "cmd e") (simp_all add: Entry_str_def str_day_def Let_def)
  with z show ?thesis by blast
qed

lemma four_then_dash:
  assumes "length z = 4"
  shows "\<exists>a b c d. z @ CHR ''-'' # r = a # b # c # d # CHR ''-'' # r"
  using assms by (auto simp: numeral_eq_Suc length_Suc_conv)

lemma dashed_no_date: "length z = 4 \<Longrightarrow> \<not> date_re (z @ CHR ''-'' # r)"
proof -
  assume "length z = 4"
  from four_then_dash [OF this, of r] obtain a b c d where
    "z @ CHR ''-'' # r = a # b # c # d # CHR ''-'' # r" by blast
  then show ?thesis by (cases r rule: date_re.cases) (auto simp del: append_eq_Cons_conv)
qed


lemma digit_not_blank: "is_digit c \<Longrightarrow> c \<noteq> CHR '' ''"
  by (auto simp: is_digit_def)

lemma entry_re_desc_fst: "entry_re_desc dg s2 = Some r \<Longrightarrow> fst r = dg"
  unfolding entry_re_desc_def
  by (auto dest!: first_some_SomeD simp: Let_def split: if_splits)

lemma entry_re_spaces_fst: "entry_re_spaces dg s1 = Some r \<Longrightarrow> fst r = dg"
  unfolding entry_re_spaces_def
  by (auto dest!: first_some_SomeD dest: entry_re_desc_fst)

lemma dashed_line:
  assumes "length z = 4" and "\<forall>c\<in>set z. is_digit c"
  shows "cmd_re (z @ CHR ''-'' # r) = None \<and>
         (\<forall>g. entry_re (z @ CHR ''-'' # r) = Some g \<longrightarrow> fst g = None)"
proof -
  let ?s = "z @ CHR ''-'' # r"
  from assms(1) obtain a z' where z: "z = a # z'" by (cases z) auto
  with assms(2) have a: "is_digit a" by simp
  have sp: "takeWhile is_space ?s = []"
    using z a digit_not_space by simp
  have bl: "takeWhile (\<lambda>c. c = CHR '' '') ?s = []"
    using z a digit_not_blank by simp
  have nd: "\<not> date_re ?s" using assms(1) by (rule dashed_no_date)
  have c: "cmd_re ?s = None"
    unfolding cmd_re_def sp using nd
    by (simp add: greedy_def date_group_def cmd_re_bang_def sp)
  have e: "entry_re ?s = entry_re_spaces None ?s"
    unfolding entry_re_def bl using nd
    by (simp add: greedy_def date_group_def split: option.splits)
  from c e show ?thesis by (auto dest: entry_re_spaces_fst)
qed

lemma isoformat_2023_01_05: "isoformat (Date 2023 1 5) = ''2023-01-05''"
  by code_simp

lemma format_f_1_500: "format_f 1 500 = ''500.0''"
proof -
  have r: "round_half_even (\<bar>500\<bar> * 10 ^ 1) = 5000" by code_simp
  have d: "dec 500 = ''500''" "dec 0 = ''0''" by code_simp+
  show ?thesis unfolding format_f_def r Let_def by (simp add: d zfill_def)
qed

lemma format_f_1_12_5: "format_f 1 (25 / 2) = ''12.5''"
proof -
  have r: "round_half_even (\<bar>25 / 2\<bar> * 10 ^ 1) = 125" by code_simp
  have d: "dec 12 = ''12''" "dec 5 = ''5''" by code_simp+
  show ?thesis unfolding format_f_def r Let_def by (simp add: d zfill_def)
qed

lemma Entry_str_food:
  "Entry_str \<lparr>cats = PyTuple [''food''], tags = [], day = Some (Date 2023 1 5),
              value_e = - (25 / 2), note_e = [], cmd = None\<rparr> = ''2023-01-05 food 12.5  ''"
  by (simp del: One_nat_def add: Entry_str_def str_day_def isoformat_2023_01_05 format_f_1_12_5)

lemma Entry_str_milestone:
  "Entry_str \<lparr>cats = PyList [], tags = [], day = Some (Date 2023 1 5), value_e = 500,
              note_e = [], cmd = Some ''milestone''\<rparr> = ''2023-01-05 !milestone 500.0''"
  by (simp del: One_nat_def add: Entry_str_def str_day_def isoformat_2023_01_05 format_f_1_500)

section \<open>The sign of a transaction\<close>




section \<open>The order of the ledger\<close>

text \<open>
  Claim C2.  The ledger is meant to stay sorted by day.  \<open>account\<close> appends the new
  entry when the day of the last stored entry is on or after the new day, so entering
  5 January and then 3 January leaves the ledger with 5 January before 3 January: the
  test that guards the append is the wrong way round.
\<close>

theorem account_day5_then_day3:
  "account (Bookkeeper_init 1 []) ''2023.01.05 food 10'' =
     Inr (\<lparr>entries = [\<lparr>cats = PyTuple [''food''], tags = [], day = Some (Date 2023 1 5),
                        value_e = - 10, note_e = [], cmd = None\<rparr>],
           last_day = Some (Date 2023 1 5), month_start_day = 1, weekly_categories = []\<rparr>, []) \<and>
   account \<lparr>entries = [\<lparr>cats = PyTuple [''food''], tags = [], day = Some (Date 2023 1 5),
                        value_e = - 10, note_e = [], cmd = None\<rparr>],
            last_day = Some (Date 2023 1 5), month_start_day = 1, weekly_categories = []\<rparr>
     ''2023.01.03 food 5'' =
     Inr (\<lparr>entries = [\<lparr>cats = PyTuple [''food''], tags = [], day = Some (Date 2023 1 5),
                        value_e = - 10, note_e = [], cmd = None\<rparr>,
                      \<lparr>cats = PyTuple [''food''], tags = [], day = Some (Date 2023 1 3),
                        value_e = - 5, note_e = [], cmd = None\<rparr>],
           last_day = Some (Date 2023 1 3), month_start_day = 1, weekly_categories = []\<rparr>, []) \<and>
   day_le (Some (Date 2023 1 5)) (Some (Date 2023 1 3)) = Inr False"
  by code_simp

section \<open>Lines that match neither pattern\<close>

text \<open>
  Claim C3, as stated, fails: the line \<open>abc\<close> matches neither pattern, and the load
  goes on to the next line without an exception; the line is only reported on the
  standard output.
\<close>

theorem unmatched_line_counterexample:
  "cmd_re ''abc'' = None \<and> entry_re ''abc'' = None \<and>
   load_lines (Bookkeeper_init 1 []) [''abc'', ''2023.01.05 food 10''] =
     Inr (\<lparr>entries = [\<lparr>cats = PyTuple [''food''], tags = [], day = Some (Date 2023 1 5),
                        value_e = - 10, note_e = [], cmd = None\<rparr>],
           last_day = Some (Date 2023 1 5), month_start_day = 1, weekly_categories = []\<rparr>,
          [error_line ''abc''])"
  by code_simp

text \<open>
  Claim C3, amended.  For a line that is not blank, not a comment and matches neither
  pattern, \<open>Entry.__init__\<close> catches the failure, prints a line made of the text
  \<open>Error line:\<close>, the line itself and the cause, and returns the entry as new;
  \<open>account\<close> raises nothing and stores no entry, and the load goes on with the rest.
\<close>

theorem unmatched_line_is_reported_and_skipped:
  assumes "strip s \<noteq> []" and "hd (strip s) \<noteq> CHR ''#''"
    and "cmd_re s = None" and "entry_re s = None"
  shows "Entry_init (Some s) d = Inr (Entry_default, [error_line s]) \<and>
         (\<exists>r. error_line s = ''Error line: '' @ s @ r) \<and>
         (\<exists>bk'. account bk s = Inr (bk', [error_line s]) \<and> entries bk' = entries bk \<and>
            load_lines bk (s # ls) =
              (case load_lines bk' ls of
                 Inl err \<Rightarrow> Inl err
               | Inr (bk2, out2) \<Rightarrow> Inr (bk2, error_line s # out2)))"
proof -
  have ne: "s \<noteq> []" using assms(1) by (auto simp: strip_def)
  have i: "Entry_init (Some s) d = Inr (Entry_default, [error_line s])" for d
    using assms by (simp add: Entry_init_def)
  have a: "account bk s = Inr (bk\<lparr>last_day := None\<rparr>, [error_line s])"
    using ne by (simp add: account_def i Entry_eq_refl Entry_default_def)
  have l: "load_lines bk (s # ls) =
             (case load_lines (bk\<lparr>last_day := None\<rparr>) ls of
                Inl err \<Rightarrow> Inl err
              | Inr (bk2, out2) \<Rightarrow> Inr (bk2, error_line s # out2))"
    by (simp add: a split: sum.splits)
  have e: "\<exists>r. error_line s = ''Error line: '' @ s @ r"
    unfolding error_line_def by (intro exI) (rule refl)
  from a l have "\<exists>bk'. account bk s = Inr (bk', [error_line s]) \<and> entries bk' = entries bk \<and>
            load_lines bk (s # ls) =
              (case load_lines bk' ls of
                 Inl err \<Rightarrow> Inl err
               | Inr (bk2, out2) \<Rightarrow> Inr (bk2, error_line s # out2))"
    by (intro exI [of _ "bk\<lparr>last_day := None\<rparr>"]) simp
  with i e show ?thesis by blast
qed

theorem unmatched_line_is_reported_and_skipped_witness:
  "strip ''abc'' \<noteq> [] \<and> hd (strip ''abc'') \<noteq> CHR ''#'' \<and> cmd_re ''abc'' = None \<and>
   entry_re ''abc'' = None \<and>
   Entry_init (Some ''abc'') None = Inr (Entry_default, [error_line ''abc''])"
proof -
  have h1: "strip ''abc'' \<noteq> []" by code_simp
  have h2: "hd (strip ''abc'') \<noteq> CHR ''#''" by code_simp
  have h3: "cmd_re ''abc'' = None" by code_simp
  have h4: "entry_re ''abc'' = None" by code_simp
  from unmatched_line_is_reported_and_skipped [OF h1 h2 h3 h4, of None]
  show ?thesis using h1 h2 h3 h4 by blast
qed

section \<open>The running total\<close>




section \<open>Lines without a date\<close>




section \<open>Filtering by category\<close>

text \<open>
  Claim C6.  A filter by category prefixes should give each matching entry once.  The
  loop over the prefixes goes on after a match (its \<open>continue\<close> is the last statement
  of the loop body), so an entry is given once for every prefix it matches.  In the
  ledger of \<open>2023.01.05 food, snacks 12\<close> and \<open>2023.01.05 drinks 3\<close>, the prefix
  \<open>["food"]\<close> alone gives the first entry once and not the second, and the prefixes
  \<open>["food"]\<close> and \<open>["food", "snacks"]\<close> together give the first entry twice.
\<close>

theorem filter_two_prefixes_duplicates:
  "load_lines (Bookkeeper_init 1 []) [''2023.01.05 food, snacks 12'', ''2023.01.05 drinks 3''] =
     Inr (\<lparr>entries = [\<lparr>cats = PyTuple [''food'', ''snacks''], tags = [],
                        day = Some (Date 2023 1 5), value_e = - 12, note_e = [], cmd = None\<rparr>,
                      \<lparr>cats = PyTuple [''drinks''], tags = [],
                        day = Some (Date 2023 1 5), value_e = - 3, note_e = [], cmd = None\<rparr>],
           last_day = Some (Date 2023 1 5), month_start_day = 1, weekly_categories = []\<rparr>, []) \<and>
   filter_bk (Date 2023 1 6)
     \<lparr>entries = [\<lparr>cats = PyTuple [''food'', ''snacks''], tags = [],
                  day = Some (Date 2023 1 5), value_e = - 12, note_e = [], cmd = None\<rparr>,
                \<lparr>cats = PyTuple [''drinks''], tags = [],
                  day = Some (Date 2023 1 5), value_e = - 3, note_e = [], cmd = None\<rparr>],
      last_day = Some (Date 2023 1 5), month_start_day = 1, weekly_categories = []\<rparr>
     None (Some [[''food'']]) None None [None] =
     Inr [\<lparr>cats = PyTuple [''food'', ''snacks''], tags = [],
            day = Some (Date 2023 1 5), value_e = - 12, note_e = [], cmd = None\<rparr>] \<and>
   filter_bk (Date 2023 1 6)
     \<lparr>entries = [\<lparr>cats = PyTuple [''food'', ''snacks''], tags = [],
                  day = Some (Date 2023 1 5), value_e = - 12, note_e = [], cmd = None\<rparr>,
                \<lparr>cats = PyTuple [''drinks''], tags = [],
                  day = Some (Date 2023 1 5), value_e = - 3, note_e = [], cmd = None\<rparr>],
      last_day = Some (Date 2023 1 5), month_start_day = 1, weekly_categories = []\<rparr>
     None (Some [[''food''], [''food'', ''snacks'']]) None None [None] =
     Inr [\<lparr>cats = PyTuple [''food'', ''snacks''], tags = [],
            day = Some (Date 2023 1 5), value_e = - 12, note_e = [], cmd = None\<rparr>,
          \<lparr>cats = PyTuple [''food'', ''snacks''], tags = [],
            day = Some (Date 2023 1 5), value_e = - 12, note_e = [], cmd = None\<rparr>]"
  by code_simp

section \<open>Filtering by tag\<close>

text \<open>
  Claim C7.  A filter by tags should give the entries that share a tag with the given
  set.  \<open>Entry.__init__\<close> stores the tags as a list, and the filter calls
  \<open>intersection\<close> on it, which a list does not have: reading the result of a filter
  by tags raises \<open>AttributeError\<close> at the first entry that reaches the test, here the
  entry of \<open>2023.01.05 food 12 lunch #work\<close> under the tag \<open>work\<close>.
\<close>

theorem filter_by_tags_raises:
  "account (Bookkeeper_init 1 []) ''2023.01.05 food 12 lunch #work'' =
     Inr (\<lparr>entries = [\<lparr>cats = PyTuple [''food''], tags = [''work''],
                        day = Some (Date 2023 1 5), value_e = - 12, note_e = ''lunch'',
                        cmd = None\<rparr>],
           last_day = Some (Date 2023 1 5), month_start_day = 1, weekly_categories = []\<rparr>, []) \<and>
   filter_bk (Date 2023 1 6)
     \<lparr>entries = [\<lparr>cats = PyTuple [''food''], tags = [''work''],
                  day = Some (Date 2023 1 5), value_e = - 12, note_e = ''lunch'', cmd = None\<rparr>],
      last_day = Some (Date 2023 1 5), month_start_day = 1, weekly_categories = []\<rparr>
     None None (Some [''work'']) None [None] = Inl AttributeError"
  by code_simp

section \<open>Blank lines and comments\<close>

text \<open>
  Claim C8.  A blank line or a comment should leave the ledger as it is, the remembered
  last date included.  \<open>account\<close> returns at once only for the empty line; for a line
  of white space or a comment it builds the entry as new and assigns its day, which
  is \<open>None\<close>, to \<open>last_day\<close> before it tests whether there is an entry to store.  The
  date remembered from \<open>2023.01.05 food 10\<close> is lost after the comment, and the
  dateless line that follows raises \<open>TypeError\<close>.
\<close>

theorem comment_line_forgets_last_day:
  "account \<lparr>entries = [\<lparr>cats = PyTuple [''food''], tags = [], day = Some (Date 2023 1 5),
                        value_e = - 10, note_e = [], cmd = None\<rparr>],
            last_day = Some (Date 2023 1 5), month_start_day = 1, weekly_categories = []\<rparr>
     ''# comment'' =
     Inr (\<lparr>entries = [\<lparr>cats = PyTuple [''food''], tags = [], day = Some (Date 2023 1 5),
                        value_e = - 10, note_e = [], cmd = None\<rparr>],
           last_day = None, month_start_day = 1, weekly_categories = []\<rparr>, []) \<and>
   account \<lparr>entries = [\<lparr>cats = PyTuple [''food''], tags = [], day = Some (Date 2023 1 5),
                        value_e = - 10, note_e = [], cmd = None\<rparr>],
            last_day = Some (Date 2023 1 5), month_start_day = 1, weekly_categories = []\<rparr>
     '''' =
     Inr (\<lparr>entries = [\<lparr>cats = PyTuple [''food''], tags = [], day = Some (Date 2023 1 5),
                        value_e = - 10, note_e = [], cmd = None\<rparr>],
           last_day = Some (Date 2023 1 5), month_start_day = 1, weekly_categories = []\<rparr>, []) \<and>
   load_lines (Bookkeeper_init 1 []) [''2023.01.05 food 10'', ''# comment'', ''drinks 2''] =
     Inl (LineFormatError TypeError ''drinks 2'') \<and>
   load_lines (Bookkeeper_init 1 []) [''2023.01.05 food 10'', '''', ''drinks 2''] =
     Inr (\<lparr>entries = [\<lparr>cats = PyTuple [''food''], tags = [], day = Some (Date 2023 1 5),
                        value_e = - 10, note_e = [], cmd = None\<rparr>,
                      \<lparr>cats = PyTuple [''drinks''], tags = [], day = Some (Date 2023 1 5),
                        value_e = - 2, note_e = [], cmd = None\<rparr>],
           last_day = Some (Date 2023 1 5), month_start_day = 1, weekly_categories = []\<rparr>, [])"
  by code_simp

section \<open>Formatting an entry and reading it back\<close>

text \<open>
  Claim C9, as stated, fails.  The entry of \<open>2023.01.05 food 12.5\<close> is written as
  \<open>2023-01-05 food 12.5\<close> followed by two blanks; read back, even with the entry's
  own day as the inherited date, the date text is part of the first category.  The
  milestone of \<open>2023.01.05 !milestone 500\<close> is written as
  \<open>2023-01-05 !milestone 500.0\<close> and read back as a transaction.
\<close>

theorem round_trip_counterexample:
  "account (Bookkeeper_init 1 []) ''2023.01.05 food 12.5'' =
     Inr (\<lparr>entries = [\<lparr>cats = PyTuple [''food''], tags = [], day = Some (Date 2023 1 5),
                        value_e = - (25 / 2), note_e = [], cmd = None\<rparr>],
           last_day = Some (Date 2023 1 5), month_start_day = 1, weekly_categories = []\<rparr>, []) \<and>
   Entry_str \<lparr>cats = PyTuple [''food''], tags = [], day = Some (Date 2023 1 5),
              value_e = - (25 / 2), note_e = [], cmd = None\<rparr> = ''2023-01-05 food 12.5  '' \<and>
   Entry_init (Some ''2023-01-05 food 12.5  '') (Some (Date 2023 1 5)) =
     Inr (\<lparr>cats = PyTuple [''2023-01-05 food''], tags = [], day = Some (Date 2023 1 5),
           value_e = - (25 / 2), note_e = [], cmd = None\<rparr>, []) \<and>
   \<not> Entry_eq \<lparr>cats = PyTuple [''food''], tags = [], day = Some (Date 2023 1 5),
                value_e = - (25 / 2), note_e = [], cmd = None\<rparr>
              \<lparr>cats = PyTuple [''2023-01-05 food''], tags = [], day = Some (Date 2023 1 5),
                value_e = - (25 / 2), note_e = [], cmd = None\<rparr> \<and>
   Entry_str \<lparr>cats = PyList [], tags = [], day = Some (Date 2023 1 5), value_e = 500,
              note_e = [], cmd = Some ''milestone''\<rparr> = ''2023-01-05 !milestone 500.0'' \<and>
   Entry_init (Some ''2023-01-05 !milestone 500.0'') (Some (Date 2023 1 5)) =
     Inr (\<lparr>cats = PyTuple [''2023-01-05 !milestone''], tags = [], day = Some (Date 2023 1 5),
           value_e = - 500, note_e = [], cmd = None\<rparr>, [])"
proof (intro conjI)
  show "account (Bookkeeper_init 1 []) ''2023.01.05 food 12.5'' =
     Inr (\<lparr>entries = [\<lparr>cats = PyTuple [''food''], tags = [], day = Some (Date 2023 1 5),
                        value_e = - (25 / 2), note_e = [], cmd = None\<rparr>],
           last_day = Some (Date 2023 1 5), month_start_day = 1, weekly_categories = []\<rparr>, [])"
    by code_simp
  show "Entry_str \<lparr>cats = PyTuple [''food''], tags = [], day = Some (Date 2023 1 5),
              value_e = - (25 / 2), note_e = [], cmd = None\<rparr> = ''2023-01-05 food 12.5  ''"
    by (rule Entry_str_food)
  show "Entry_init (Some ''2023-01-05 food 12.5  '') (Some (Date 2023 1 5)) =
     Inr (\<lparr>cats = PyTuple [''2023-01-05 food''], tags = [], day = Some (Date 2023 1 5),
           value_e = - (25 / 2), note_e = [], cmd = None\<rparr>, [])"
    by code_simp
  show "\<not> Entry_eq \<lparr>cats = PyTuple [''food''], tags = [], day = Some (Date 2023 1 5),
                value_e = - (25 / 2), note_e = [], cmd = None\<rparr>
              \<lparr>cats = PyTuple [''2023-01-05 food''], tags = [], day = Some (Date 2023 1 5),
                value_e = - (25 / 2), note_e = [], cmd = None\<rparr>"
    by (simp add: Entry_eq_def)
  show "Entry_str \<lparr>cats = PyList [], tags = [], day = Some (Date 2023 1 5), value_e = 500,
              note_e = [], cmd = Some ''milestone''\<rparr> = ''2023-01-05 !milestone 500.0''"
    by (rule Entry_str_milestone)
  show "Entry_init (Some ''2023-01-05 !milestone 500.0'') (Some (Date 2023 1 5)) =
     Inr (\<lparr>cats = PyTuple [''2023-01-05 !milestone''], tags = [], day = Some (Date 2023 1 5),
           value_e = - 500, note_e = [], cmd = None\<rparr>, [])"
    by code_simp
qed

text \<open>
  Claim C9, amended.  \<open>Entry.__str__\<close> writes the day as \<open>YYYY-MM-DD\<close>, and neither
  pattern reads that as a date.  So when an entry that has a day, transaction or
  command, is formatted and the text is parsed again, the result is never a command
  entry, and its day is the inherited date of the second parse, or none, not a date
  read from the text; unless the inherited date happens to be the day of the original
  entry, the entry read back is not equal to the original.
\<close>

theorem formatted_day_is_not_read_back:
  assumes "day e = Some dt" and "valid_date dt"
    and "Entry_init (Some (Entry_str e)) d = Inr (e', out)"
  shows "cmd e' = None \<and> (day e' = d \<or> day e' = None) \<and> (d \<noteq> Some dt \<longrightarrow> \<not> Entry_eq e e')"
proof -
  from Entry_str_shape [OF assms(1,2)] obtain z r where
    s: "Entry_str e = z @ CHR ''-'' # r" and z: "length z = 4" "\<forall>c\<in>set z. is_digit c" by blast
  from dashed_line [OF z, of r] s have c: "cmd_re (Entry_str e) = None"
    and g: "\<And>g. entry_re (Entry_str e) = Some g \<Longrightarrow> fst g = None" by auto
  have "cmd e' = None \<and> (day e' = d \<or> day e' = None)"
  proof (cases "entry_re (Entry_str e)")
    case None
    with assms(3) c show ?thesis
      by (auto simp: Entry_init_def Entry_default_def split: if_splits)
  next
    case (Some m)
    obtain dg desc_gr value_gr note_gr where m: "m = (dg, desc_gr, value_gr, note_gr)"
      by (cases m) auto
    with g [OF Some] have "dg = None" by simp
    with assms(3) c Some m show ?thesis
      by (auto simp: Entry_init_def Entry_default_def Let_def split: if_splits sum.splits)
  qed
  with assms(1) show ?thesis by (auto simp: Entry_eq_def)
qed

theorem formatted_day_is_not_read_back_witness:
  "day \<lparr>cats = PyTuple [''food''], tags = [], day = Some (Date 2023 1 5),
        value_e = - (25 / 2), note_e = [], cmd = None\<rparr> = Some (Date 2023 1 5) \<and>
   valid_date (Date 2023 1 5) \<and>
   Entry_init (Some (Entry_str \<lparr>cats = PyTuple [''food''], tags = [],
                               day = Some (Date 2023 1 5), value_e = - (25 / 2),
                               note_e = [], cmd = None\<rparr>)) None =
     Inr (\<lparr>cats = PyTuple [''2023-01-05 food''], tags = [], day = None,
           value_e = - (25 / 2), note_e = [], cmd = None\<rparr>, []) \<and>
   \<not> Entry_eq \<lparr>cats = PyTuple [''food''], tags = [], day = Some (Date 2023 1 5),
                value_e = - (25 / 2), note_e = [], cmd = None\<rparr>
              \<lparr>cats = PyTuple [''2023-01-05 food''], tags = [], day = None,
                value_e = - (25 / 2), note_e = [], cmd = None\<rparr>"
proof -
  let ?e = "\<lparr>cats = PyTuple [''food''], tags = [], day = Some (Date 2023 1 5),
             value_e = - (25 / 2), note_e = [], cmd = None\<rparr>"
  let ?e' = "\<lparr>cats = PyTuple [''2023-01-05 food''], tags = [], day = None,
              value_e = - (25 / 2), note_e = [], cmd = None\<rparr>"
  have h1: "day ?e = Some (Date 2023 1 5)" by simp
  have h2: "valid_date (Date 2023 1 5)" by code_simp
  have "Entry_init (Some ''2023-01-05 food 12.5  '') None = Inr (?e', [])" by code_simp
  then have h3: "Entry_init (Some (Entry_str ?e)) None = Inr (?e', [])"
    by (simp only: Entry_str_food)
  from formatted_day_is_not_read_back [OF h1 h2 h3] have "\<not> Entry_eq ?e ?e'" by simp
  with h1 h2 h3 show ?thesis by blast
qed

section \<open>Command lines and their date\<close>




end
